theory Spec2Isabelle
  imports Main "HOL-Library.Word"
begin

unbundle bit_operations_syntax

section \<open>The data model of heap_2.c\<close>

text \<open>
  The target is a 32-bit microcontroller: \<open>size_t\<close> and pointers are 32-bit words, and
  all address and size arithmetic wraps modulo \<open>2 ^ 32\<close>.
\<close>

type_synonym size_t = "32 word"
type_synonym addr = "32 word"

definition NULL :: addr where
  "NULL = 0"

text \<open>
  The configuration the file takes from headers that are not part of the sources:
  the total heap size, the merge flag, and the addresses at which the linker places the
  three static objects \<open>ucHeap\<close>, \<open>xStart\<close> and \<open>xEnd\<close>.
\<close>

record config =
  configTOTAL_HEAP_SIZE :: size_t
  if_merge_mem :: int
  addr_ucHeap :: addr
  addr_xStart :: addr
  addr_xEnd :: addr

text \<open>
  Modelled from the spec: \<open>portBYTE_ALIGNMENT\<close>, \<open>portBYTE_ALIGNMENT_MASK\<close> (portmacro.h,
  portable.h) and the size of \<open>BlockLink_t\<close> are not in the sources. The spec's scenario
  fixes header overhead 8 and alignment 8; \<open>BlockLink_t\<close> is a pointer and a \<open>size_t\<close>,
  8 bytes on the 32-bit target.
\<close>

definition portBYTE_ALIGNMENT :: size_t where
  "portBYTE_ALIGNMENT = 8"

definition portBYTE_ALIGNMENT_MASK :: size_t where
  "portBYTE_ALIGNMENT_MASK = 7"

definition sizeof_BlockLink_t :: size_t where
  "sizeof_BlockLink_t = 8"

text \<open>\<open>#define configADJUSTED_HEAP_SIZE ( configTOTAL_HEAP_SIZE - portBYTE_ALIGNMENT )\<close>\<close>

definition configADJUSTED_HEAP_SIZE :: "config \<Rightarrow> size_t" where
  "configADJUSTED_HEAP_SIZE cfg = configTOTAL_HEAP_SIZE cfg - portBYTE_ALIGNMENT"

text \<open>\<open>heapSTRUCT_SIZE\<close> is a \<open>uint16_t\<close>; it is widened to \<open>size_t\<close> wherever it is used.\<close>

definition heapSTRUCT_SIZE :: "16 word" where
  "heapSTRUCT_SIZE =
     ucast ((sizeof_BlockLink_t + (portBYTE_ALIGNMENT - 1)) AND NOT portBYTE_ALIGNMENT_MASK)"

definition heapMINIMUM_BLOCK_SIZE :: size_t where
  "heapMINIMUM_BLOCK_SIZE = ucast heapSTRUCT_SIZE * 2"

text \<open>
  Memory holds \<open>BlockLink_t\<close> headers. Each field of the struct is a map from the address
  of a header to the value of the field there, so that a write through one pointer is seen
  through every alias. \<open>xStart\<close> and \<open>xEnd\<close> are headers of this memory like any
  other, at \<open>addr_xStart\<close> and \<open>addr_xEnd\<close>. The two remaining statics,
  \<open>xFreeBytesRemaining\<close> and \<open>xHeapHasBeenInitialised\<close>, complete the state.
\<close>

record heap =
  pxNextFreeBlock :: "addr \<Rightarrow> addr"
  xBlockSize :: "addr \<Rightarrow> size_t"
  xFreeBytesRemaining :: size_t
  xHeapHasBeenInitialised :: bool

definition set_next :: "addr \<Rightarrow> addr \<Rightarrow> heap \<Rightarrow> heap" where
  "set_next p v s = s\<lparr>pxNextFreeBlock := (pxNextFreeBlock s)(p := v)\<rparr>"

definition set_size :: "addr \<Rightarrow> size_t \<Rightarrow> heap \<Rightarrow> heap" where
  "set_size p v s = s\<lparr>xBlockSize := (xBlockSize s)(p := v)\<rparr>"

text \<open>
  The state before the first call: statics are zero-initialised, except for the
  initialiser of \<open>xFreeBytesRemaining\<close>.
\<close>

definition heap_initial :: "config \<Rightarrow> heap" where
  "heap_initial cfg =
     \<lparr>pxNextFreeBlock = (\<lambda>_. NULL), xBlockSize = (\<lambda>_. 0),
      xFreeBytesRemaining = configADJUSTED_HEAP_SIZE cfg,
      xHeapHasBeenInitialised = False\<rparr>"

section \<open>prvInsertBlockIntoFreeList\<close>

text \<open>
  The functions return \<open>None\<close> where the C code has no result: a loop that never exits,
  or a dereference of \<open>NULL\<close> while walking the list.

  The merge loop (lines 117 to 142). \<open>xStartAddress\<close>, \<open>xEndAddress\<close> and the local
  \<open>xBlockSize\<close> (here \<open>xBlockSz\<close>) are computed before the loop and never updated in it.
\<close>

partial_function (option) merge_loop ::
  "config \<Rightarrow> addr \<Rightarrow> addr \<Rightarrow> size_t \<Rightarrow> addr \<Rightarrow> addr \<Rightarrow> addr \<Rightarrow> heap \<Rightarrow> (addr \<times> heap) option"
where
  "merge_loop cfg xStartAddress xEndAddress xBlockSz pxBlockPtr pxPrevBlock pxCurBlock s =
     (if pxCurBlock = addr_xEnd cfg then Some (pxBlockPtr, s)
      else if pxCurBlock = NULL then None
      else if xStartAddress \<noteq> pxCurBlock + xBlockSize s pxCurBlock \<and> xEndAddress \<noteq> pxCurBlock
      then merge_loop cfg xStartAddress xEndAddress xBlockSz pxBlockPtr
             pxCurBlock (pxNextFreeBlock s pxCurBlock) s
      else if xStartAddress = pxCurBlock + xBlockSize s pxCurBlock
      then (let s1 = set_size pxCurBlock (xBlockSize s pxCurBlock + xBlockSz) s;
                s2 = set_next pxPrevBlock (pxNextFreeBlock s1 pxCurBlock) s1
            in merge_loop cfg xStartAddress xEndAddress xBlockSz pxCurBlock
                 pxPrevBlock (pxNextFreeBlock s2 pxCurBlock) s2)
      else if xEndAddress = pxCurBlock
      then (let s1 = set_size pxBlockPtr (xBlockSize s pxBlockPtr + xBlockSize s pxCurBlock) s;
                s2 = set_next pxPrevBlock (pxNextFreeBlock s1 pxCurBlock) s1
            in merge_loop cfg xStartAddress xEndAddress xBlockSz pxBlockPtr
                 pxPrevBlock (pxNextFreeBlock s2 pxCurBlock) s2)
      else (let s2 = set_next pxPrevBlock (pxNextFreeBlock s pxCurBlock) s
            in merge_loop cfg xStartAddress xEndAddress xBlockSz pxBlockPtr
                 pxPrevBlock (pxNextFreeBlock s2 pxCurBlock) s2))"

declare merge_loop.simps [code]

text \<open>The insertion scan (lines 149 to 154): it returns the final \<open>pxIterator\<close>.\<close>

partial_function (option) insert_loop :: "size_t \<Rightarrow> addr \<Rightarrow> heap \<Rightarrow> addr option"
where
  "insert_loop xBlockSz pxIterator s =
     (if pxNextFreeBlock s pxIterator = NULL then None
      else if xBlockSize s (pxNextFreeBlock s pxIterator) < xBlockSz
      then insert_loop xBlockSz (pxNextFreeBlock s pxIterator) s
      else Some pxIterator)"

declare insert_loop.simps [code]

definition prvInsertBlockIntoFreeList :: "config \<Rightarrow> addr \<Rightarrow> heap \<Rightarrow> heap option" where
  "prvInsertBlockIntoFreeList cfg pxBlockToInsert s =
     (case (if if_merge_mem cfg = 1
            then merge_loop cfg pxBlockToInsert (pxBlockToInsert + xBlockSize s pxBlockToInsert)
                   (xBlockSize s pxBlockToInsert) pxBlockToInsert
                   (addr_xStart cfg) (pxNextFreeBlock s (addr_xStart cfg)) s
            else Some (pxBlockToInsert, s)) of
        None \<Rightarrow> None
      | Some (pxBlockPtr, s1) \<Rightarrow>
          (case insert_loop (xBlockSize s1 pxBlockPtr) (addr_xStart cfg) s1 of
             None \<Rightarrow> None
           | Some pxIterator \<Rightarrow>
               Some (set_next pxIterator pxBlockPtr
                      (set_next pxBlockPtr (pxNextFreeBlock s1 pxIterator) s1))))"

section \<open>prvHeapInit, pvPortMalloc, vPortFree\<close>

definition prvHeapInit :: "config \<Rightarrow> heap \<Rightarrow> heap" where
  "prvHeapInit cfg s =
     (let pucAlignedHeap = (addr_ucHeap cfg + portBYTE_ALIGNMENT) AND NOT portBYTE_ALIGNMENT_MASK;
          s1 = set_next (addr_xStart cfg) pucAlignedHeap s;
          s2 = set_size (addr_xStart cfg) 0 s1;
          s3 = set_size (addr_xEnd cfg) (configADJUSTED_HEAP_SIZE cfg) s2;
          s4 = set_next (addr_xEnd cfg) NULL s3;
          s5 = set_size pucAlignedHeap (configADJUSTED_HEAP_SIZE cfg) s4
      in set_next pucAlignedHeap (addr_xEnd cfg) s5)"

text \<open>The size adjustment of lines 184 to 194: header added, then rounded up.\<close>

definition adjust_size :: "size_t \<Rightarrow> size_t" where
  "adjust_size xWantedSize =
     (if xWantedSize > 0
      then (let w = xWantedSize + ucast heapSTRUCT_SIZE
            in if w AND portBYTE_ALIGNMENT_MASK \<noteq> 0
               then w + (portBYTE_ALIGNMENT - (w AND portBYTE_ALIGNMENT_MASK))
               else w)
      else xWantedSize)"

text \<open>The search of lines 200 to 206: it returns \<open>(pxPreviousBlock, pxBlock)\<close>.\<close>

partial_function (option) find_loop ::
  "size_t \<Rightarrow> addr \<Rightarrow> addr \<Rightarrow> heap \<Rightarrow> (addr \<times> addr) option"
where
  "find_loop xWantedSize pxPreviousBlock pxBlock s =
     (if pxBlock = NULL then None
      else if xBlockSize s pxBlock < xWantedSize \<and> pxNextFreeBlock s pxBlock \<noteq> NULL
      then find_loop xWantedSize pxBlock (pxNextFreeBlock s pxBlock) s
      else Some (pxPreviousBlock, pxBlock))"

declare find_loop.simps [code]

text \<open>
  \<open>pvPortMalloc\<close> returns \<open>pvReturn\<close> and the new state. The trace macro, the failure
  hook and the UART report do not touch the allocator's state and are left out.
\<close>

definition pvPortMalloc :: "config \<Rightarrow> size_t \<Rightarrow> heap \<Rightarrow> (addr \<times> heap) option" where
  "pvPortMalloc cfg xWantedSize0 s0 =
     (let s = (if \<not> xHeapHasBeenInitialised s0
               then (prvHeapInit cfg s0)\<lparr>xHeapHasBeenInitialised := True\<rparr> else s0);
          xWantedSize = adjust_size xWantedSize0
      in if xWantedSize > 0 \<and> xWantedSize < configADJUSTED_HEAP_SIZE cfg
         then (case find_loop xWantedSize (addr_xStart cfg) (pxNextFreeBlock s (addr_xStart cfg)) s of
                 None \<Rightarrow> None
               | Some (pxPreviousBlock, pxBlock) \<Rightarrow>
                   if pxBlock \<noteq> addr_xEnd cfg
                   then (let pvReturn = pxNextFreeBlock s pxPreviousBlock + ucast heapSTRUCT_SIZE;
                             s1 = set_next pxPreviousBlock (pxNextFreeBlock s pxBlock) s
                         in case (if xBlockSize s1 pxBlock - xWantedSize > heapMINIMUM_BLOCK_SIZE
                                  then (let pxNewBlockLink = pxBlock + xWantedSize;
                                            s2 = set_size pxNewBlockLink
                                                   (xBlockSize s1 pxBlock - xWantedSize) s1;
                                            s3 = set_size pxBlock xWantedSize s2
                                        in prvInsertBlockIntoFreeList cfg pxNewBlockLink s3)
                                  else Some s1) of
                              None \<Rightarrow> None
                            | Some s4 \<Rightarrow>
                                Some (pvReturn,
                                      s4\<lparr>xFreeBytesRemaining :=
                                            xFreeBytesRemaining s4 - xBlockSize s4 pxBlock\<rparr>))
                   else Some (NULL, s))
         else Some (NULL, s))"

definition vPortFree :: "config \<Rightarrow> addr \<Rightarrow> heap \<Rightarrow> heap option" where
  "vPortFree cfg pv s =
     (if pv \<noteq> NULL
      then (let pxLink = pv - ucast heapSTRUCT_SIZE
            in case prvInsertBlockIntoFreeList cfg pxLink s of
                 None \<Rightarrow> None
               | Some s1 \<Rightarrow>
                   Some (s1\<lparr>xFreeBytesRemaining := xFreeBytesRemaining s1 + xBlockSize s1 pxLink\<rparr>))
      else Some s)"

definition xPortGetFreeHeapSize :: "heap \<Rightarrow> size_t" where
  "xPortGetFreeHeapSize s = xFreeBytesRemaining s"

section \<open>vPrintFreeList\<close>

text \<open>
  The diagnostic walk of the free list, from \<open>xStart.pxNextFreeBlock\<close> until \<open>&xEnd\<close>.
  The model returns the rows it prints, one per block:
  start address, \<open>heapSTRUCT_SIZE\<close>, \<open>xBlockSize\<close>, end address.
\<close>

partial_function (option) print_loop ::
  "config \<Rightarrow> addr \<Rightarrow> heap \<Rightarrow> (addr \<times> 16 word \<times> size_t \<times> addr) list option"
where
  "print_loop cfg curNode s =
     (if curNode = addr_xEnd cfg then Some []
      else if curNode = NULL then None
      else Option.bind (print_loop cfg (pxNextFreeBlock s curNode) s)
             (\<lambda>rows. Some ((curNode, heapSTRUCT_SIZE, xBlockSize s curNode,
                             curNode + xBlockSize s curNode) # rows)))"

declare print_loop.simps [code]

definition vPrintFreeList ::
  "config \<Rightarrow> heap \<Rightarrow> (addr \<times> 16 word \<times> size_t \<times> addr) list option" where
  "vPrintFreeList cfg s = print_loop cfg (pxNextFreeBlock s (addr_xStart cfg)) s"

text \<open>The free list as the pairs (start address, size) of its rows.\<close>

definition free_list :: "config \<Rightarrow> heap \<Rightarrow> (addr \<times> size_t) list option" where
  "free_list cfg s = map_option (map (\<lambda>(a, h, sz, e). (a, sz))) (vPrintFreeList cfg s)"

section \<open>Sequences of calls\<close>

text \<open>
  A caller's view: a sequence of calls to \<open>pvPortMalloc\<close> and \<open>vPortFree\<close>, where
  \<open>vPortFree\<close> is only given pointers that \<open>pvPortMalloc\<close> returned and that have not been
  freed since (its precondition), or \<open>NULL\<close>. The list \<open>live\<close> holds the pointers the
  caller owns, oldest first; \<open>Free k\<close> frees the \<open>k\<close>-th of them, and \<open>NULL\<close> when
  there is none.
\<close>

datatype call = Malloc size_t | Free nat

fun exec :: "config \<Rightarrow> call \<Rightarrow> heap \<times> addr list \<Rightarrow> (heap \<times> addr list) option" where
  "exec cfg (Malloc n) (s, live) =
     (case pvPortMalloc cfg n s of
        None \<Rightarrow> None
      | Some (p, s') \<Rightarrow> Some (s', if p = NULL then live else live @ [p]))"
| "exec cfg (Free k) (s, live) =
     (if k < length live
      then (case vPortFree cfg (live ! k) s of
              None \<Rightarrow> None
            | Some s' \<Rightarrow> Some (s', take k live @ drop (Suc k) live))
      else map_option (\<lambda>s'. (s', live)) (vPortFree cfg NULL s))"

fun run :: "config \<Rightarrow> call list \<Rightarrow> heap \<times> addr list \<Rightarrow> (heap \<times> addr list) option" where
  "run cfg [] st = Some st"
| "run cfg (c # cs) st = (case exec cfg c st of None \<Rightarrow> None | Some st' \<Rightarrow> run cfg cs st')"

text \<open>The bytes held by the caller: the recorded, header-inclusive sizes of the live blocks.\<close>

definition allocated_bytes :: "heap \<Rightarrow> addr list \<Rightarrow> nat" where
  "allocated_bytes s live = (\<Sum>p\<leftarrow>live. unat (xBlockSize s (p - ucast heapSTRUCT_SIZE)))"

text \<open>
  The configuration of the spec's scenario: usable size 1024 (total size 1032), merging
  enabled, with the statics at addresses of the target's RAM.
\<close>

definition cfg_scenario :: config where
  "cfg_scenario =
     \<lparr>configTOTAL_HEAP_SIZE = 1032, if_merge_mem = 1, addr_ucHeap = 0x20000000,
      addr_xStart = 0x20001000, addr_xEnd = 0x20001008\<rparr>"

section \<open>Basic facts\<close>

lemma heapSTRUCT_SIZE_val: "heapSTRUCT_SIZE = 8"
  by (simp add: heapSTRUCT_SIZE_def sizeof_BlockLink_t_def portBYTE_ALIGNMENT_def
      portBYTE_ALIGNMENT_MASK_def)

lemma adjust_size_0: "adjust_size 0 = 0"
  by (simp add: adjust_size_def)

lemma and7_mod: "unat ((U::32 word) AND 7) = unat U mod 8"
proof -
  have "(7::32 word) = mask 3" by (simp add: mask_eq_exp_minus_1)
  then have "U AND 7 = take_bit 3 U" by (simp add: take_bit_eq_mask)
  then show ?thesis by (simp add: unsigned_take_bit_eq take_bit_eq_mod unat_mod)
qed

text \<open>Rounding \<open>U\<close> up to the next multiple of 8 gives at least \<open>U\<close>, or wraps to 0.\<close>

lemma round_up_whole:
  fixes U :: "32 word"
  assumes "U AND 7 \<noteq> 0"
  shows "U + (8 - (U AND 7)) = 0 \<or> U \<le> U + (8 - (U AND 7))"
proof -
  let ?r = "unat U mod 8"
  let ?k = "8 - (U AND 7)"
  have r: "unat (U AND 7) = ?r" by (rule and7_mod)
  have r0: "?r \<noteq> 0" using assms r by (metis unat_eq_0)
  have "U AND 7 \<le> 8" by (simp add: word_le_nat_alt r)
  then have k: "unat ?k = 8 - ?r" by (simp add: unat_sub r)
  have lt: "unat U < 4294967296" using unsigned_less [of U, where 'a = nat] by simp
  show ?thesis
  proof (cases "unat U + unat ?k < 2 ^ LENGTH(32)")
    case True
    then show ?thesis by (simp add: no_olen_add_nat)
  next
    case False
    then have ge: "4294967296 \<le> unat U + (8 - ?r)" using k by simp
    have "unat U + (8 - ?r) = 4294967296" using ge lt r0 by presburger
    then have "unat (U + ?k) = 0" by (simp add: unat_word_ariths k)
    then show ?thesis by (simp add: unat_eq_0)
  qed
qed

lemma adjust_size_whole:
  "adjust_size (U - ucast heapSTRUCT_SIZE) = 0 \<or> U \<le> adjust_size (U - ucast heapSTRUCT_SIZE)"
proof (cases "U - 8 = 0")
  case True
  then show ?thesis by (simp add: adjust_size_def heapSTRUCT_SIZE_val)
next
  case False
  then have "0 < U - 8" by (simp add: word_gt_0)
  then show ?thesis
    using round_up_whole [of U]
    by (auto simp: adjust_size_def heapSTRUCT_SIZE_val portBYTE_ALIGNMENT_def
        portBYTE_ALIGNMENT_MASK_def Let_def)
qed

lemma malloc_whole:
  "pvPortMalloc cfg (configADJUSTED_HEAP_SIZE cfg - ucast heapSTRUCT_SIZE) s =
     Some (NULL, if xHeapHasBeenInitialised s then s
                 else (prvHeapInit cfg s)\<lparr>xHeapHasBeenInitialised := True\<rparr>)"
  using adjust_size_whole [of "configADJUSTED_HEAP_SIZE cfg"]
  by (auto simp: pvPortMalloc_def Let_def word_gt_0)

text \<open>
  C9. \<open>pvPortMalloc(0)\<close> returns \<open>NULL\<close> in every state, and the counter of free bytes is
  what it was before the call.
\<close>

theorem malloc_zero_fails:
  "\<exists>s'. pvPortMalloc cfg 0 s = Some (NULL, s') \<and> xFreeBytesRemaining s' = xFreeBytesRemaining s"
  by (simp add: pvPortMalloc_def adjust_size_0 prvHeapInit_def set_next_def set_size_def Let_def)


section \<open>The defects, at concrete inputs\<close>

text \<open>
  C1. The conservation invariant fails with merging enabled. In the scenario,
  \<open>a = pvPortMalloc(100)\<close>, \<open>b = pvPortMalloc(200)\<close>, \<open>vPortFree(b)\<close>: the freed block
  absorbs the free block behind it inside \<open>prvInsertBlockIntoFreeList\<close>, and \<open>vPortFree\<close>
  then adds the enlarged size (912) to the counter. The caller still holds \<open>a\<close>, 112 bytes
  with the header, the usable size is 1024, and the counter reads 1616: the sum of the
  counter and the allocated bytes is not the usable size.
\<close>

theorem conservation_broken_by_merge:
  "map_option
     (\<lambda>(s, live).
        (live, allocated_bytes s live, xPortGetFreeHeapSize s,
         configADJUSTED_HEAP_SIZE cfg_scenario,
         unat (xPortGetFreeHeapSize s) + allocated_bytes s live
           = unat (configADJUSTED_HEAP_SIZE cfg_scenario)))
     (run cfg_scenario [Malloc 100, Malloc 200, Free 1] (heap_initial cfg_scenario, []))
   = Some ([0x20000010], 112, 1616, 1024, False)"
  by code_simp

text \<open>
  C2. A block with a free neighbour on each side, where the right neighbour comes first in
  the size-ordered list. Four blocks are allocated (headers at \<open>0x20000008\<close>,
  \<open>0x20000078\<close>, \<open>0x200000E8\<close> and \<open>0x20000118\<close>), the first (size 112) and the third
  (size 48) are freed, and the second (size 112), which lies between them, is inserted.
  Both neighbours are unlinked, but the block that results has size 224, not
  112 + 112 + 48 = 272: the bytes of the right neighbour are in no free block any more.
\<close>

theorem merge_both_sides_loses_successor:
  "map_option
     (\<lambda>(s, live).
        (free_list cfg_scenario s, xBlockSize s 0x20000078,
         map_option (free_list cfg_scenario)
           (prvInsertBlockIntoFreeList cfg_scenario 0x20000078 s)))
     (run cfg_scenario [Malloc 100, Malloc 100, Malloc 40, Malloc 8, Free 0, Free 1]
        (heap_initial cfg_scenario, []))
   = Some (Some [(0x200000E8, 48), (0x20000008, 112), (0x20000128, 736)], 112,
           Some (Some [(0x20000008, 224), (0x20000128, 736)]))"
  by code_simp

text \<open>
  C3. The round trip in the scenario: \<open>pvPortMalloc(100)\<close> and \<open>vPortFree\<close> of the result.
  The free list is again the single block that spans the arena, but the counter reads
  1936 where the usable size is 1024.
\<close>

theorem round_trip_counter_wrong:
  "case pvPortMalloc cfg_scenario 100 (heap_initial cfg_scenario) of
     None \<Rightarrow> False
   | Some (p, s) \<Rightarrow>
       p = 0x20000010 \<and>
       (case vPortFree cfg_scenario p s of
          None \<Rightarrow> False
        | Some s' \<Rightarrow>
            free_list cfg_scenario s' = Some [(0x20000008, configADJUSTED_HEAP_SIZE cfg_scenario)] \<and>
            configADJUSTED_HEAP_SIZE cfg_scenario = 1024 \<and>
            xPortGetFreeHeapSize s' = 1936)"
  by code_simp

text \<open>
  C6. A request near the maximum of \<open>size_t\<close>: \<open>0xFFFFFFFC + 8\<close> wraps to 4, which is
  rounded to 8. The call succeeds and hands out a block whose recorded size is 8, the
  header alone: 0 bytes of payload for a request of 4294967292 bytes.
\<close>

theorem malloc_request_wraps:
  "map_option
     (\<lambda>(p, s).
        (p, p \<noteq> NULL, adjust_size 0xFFFFFFFC,
         xBlockSize s (p - ucast heapSTRUCT_SIZE),
         xBlockSize s (p - ucast heapSTRUCT_SIZE) - ucast heapSTRUCT_SIZE))
     (pvPortMalloc cfg_scenario 0xFFFFFFFC (heap_initial cfg_scenario))
   = Some (0x20000010, True, 8, 8, 0)"
  by code_simp

text \<open>
  C4, as stated, fails: in the scenario the first \<open>pvPortMalloc(100)\<close> chooses the block of
  size 1024 and splits it, and the counter goes down by 112, the rounded request, not
  by 1024.
\<close>

theorem malloc_split_counter_counterexample:
  "case pvPortMalloc cfg_scenario 100
          ((prvHeapInit cfg_scenario (heap_initial cfg_scenario))\<lparr>xHeapHasBeenInitialised := True\<rparr>) of
     None \<Rightarrow> False
   | Some (p, s) \<Rightarrow>
       p = 0x20000010 \<and>
       xBlockSize (prvHeapInit cfg_scenario (heap_initial cfg_scenario)) 0x20000008 = 1024 \<and>
       xBlockSize s 0x20000008 = 112 \<and>
       free_list cfg_scenario s = Some [(0x20000078, 912)] \<and>
       xFreeBytesRemaining s = xFreeBytesRemaining (heap_initial cfg_scenario) - 112 \<and>
       xFreeBytesRemaining s \<noteq> xFreeBytesRemaining (heap_initial cfg_scenario) - 1024"
  by code_simp

text \<open>
  C5, as stated, fails: in the scenario (usable size 1024, header 8) the first
  \<open>pvPortMalloc(1016)\<close> on the fresh arena already returns \<open>NULL\<close>.
\<close>

theorem malloc_whole_arena_counterexample:
  "case pvPortMalloc cfg_scenario (configADJUSTED_HEAP_SIZE cfg_scenario - ucast heapSTRUCT_SIZE)
          (heap_initial cfg_scenario) of
     None \<Rightarrow> False
   | Some (p, s) \<Rightarrow> p = NULL"
  by code_simp


text \<open>
  C5, amended. For every configuration, \<open>pvPortMalloc(U - heapSTRUCT_SIZE)\<close> with \<open>U\<close> the
  usable size fails on the fresh arena, and the identical second call fails as well: the
  adjusted size is \<open>U\<close> or more (or wraps to 0), and line 196 demands strictly less than
  \<open>U\<close>. The first call only initialises the heap.
\<close>

theorem malloc_whole_arena_fails:
  "(let x = configADJUSTED_HEAP_SIZE cfg - ucast heapSTRUCT_SIZE;
        s1 = (prvHeapInit cfg (heap_initial cfg))\<lparr>xHeapHasBeenInitialised := True\<rparr>
    in pvPortMalloc cfg x (heap_initial cfg) = Some (NULL, s1) \<and>
       pvPortMalloc cfg x s1 = Some (NULL, s1) \<and>
       xFreeBytesRemaining s1 = configADJUSTED_HEAP_SIZE cfg)"
  by (simp add: malloc_whole Let_def heap_initial_def prvHeapInit_def set_next_def set_size_def)

end
